theory Spec2Isabelle
  imports Main
begin

section \<open>JavaScript values and Array.prototype.join\<close>

text \<open>
  Both modules build text with template literals and \<^verbatim>\<open>Array.prototype.join\<close>.
  Column names and table identifiers are JavaScript strings; they are only ever
  concatenated and compared for equality, so they are modelled as \<^typ>\<open>string\<close>.
\<close>

datatype js_error = TypeError | SchemaUnavailable

text \<open>
  The values a property read on the catalog object can produce: \<^verbatim>\<open>undefined\<close>, one of
  the arrays of column names written in the literal, or a member that every object
  literal inherits from \<^verbatim>\<open>Object.prototype\<close> (a function, or for \<^verbatim>\<open>__proto__\<close> the
  prototype object itself), named by its property key.
\<close>

datatype js_value = Undefined | Array "string list" | Inherited string

text \<open>
  \<^verbatim>\<open>Array.prototype.join(sep)\<close> as ECMAScript defines it: the result \<open>R\<close> starts empty,
  the index \<open>k\<close> runs over the elements, and the separator is appended before every
  element but the one at index 0.
\<close>

fun join_loop :: "string \<Rightarrow> nat \<Rightarrow> string \<Rightarrow> string list \<Rightarrow> string" where
  "join_loop sep k R [] = R"
| "join_loop sep k R (x # xs) = join_loop sep (Suc k) ((if 0 < k then R @ sep else R) @ x) xs"

definition join :: "string list \<Rightarrow> string \<Rightarrow> string" where
  "join xs sep = join_loop sep 0 '''' xs"

text \<open>
  What "the elements joined with a separator" means, written directly: nothing for the
  empty sequence, the element itself for a singleton, and otherwise the first element,
  the separator and the rest joined.
\<close>

fun joined_with :: "string \<Rightarrow> string list \<Rightarrow> string" where
  "joined_with sep [] = ''''"
| "joined_with sep [x] = x"
| "joined_with sep (x # y # ys) = x @ sep @ joined_with sep (y # ys)"

section \<open>positions_columns.js\<close>

text \<open>
  The object literal \<^verbatim>\<open>positionColumns\<close>: its own properties in source order, each an
  array of column names.
\<close>

definition positionColumns :: "(string \<times> string list) list" where
  "positionColumns =
    [(''Goalkeeper'',
        [''shot_stopping_saves'', ''shot_stopping_sota'', ''shot_stopping_psxg'',
         ''shot_stopping_ga'', ''crosses_stp'', ''crosses_opp'', ''sweeper_#opa'',
         ''sweeper_avgdist'', ''total_cmp%'', ''goal_kicks_launch%'', ''minutes'']),
     (''Centerback'',
        [''aerial_duels_won%'', ''clr_'', ''int_'', ''blocks_blocks'', ''tackles_tkl'',
         ''tackles_tklw'', ''minutes'']),
     (''Fullback'',
        [''crosses_crs'', ''tackles_tkl'', ''tackles_tklw'', ''tackles_def_3rd'',
         ''tackles_mid_3rd'', ''tackles_att_3rd'', ''int_'', ''minutes'']),
     (''Midfielder'',
        [''total_cmp%'', ''tackles_tkl'', ''int_'', ''tackles_mid_3rd'', ''xag_'', ''1_3_'',
         ''minutes'']),
     (''Winger'',
        [''crosses_crs'', ''xag_'', ''xa_'', ''performance_og'', ''performance_recov'',
         ''minutes'']),
     (''Striker'',
        [''performance_pkwon'', ''performance_pkcon'', ''aerial_duels_won%'',
         ''aerial_duels_won'', ''challenges_att_3rd'', ''ppa_'', ''minutes''])]"

text \<open>
  The property keys of \<^verbatim>\<open>Object.prototype\<close> (ECMA-262, "Properties of the Object
  Prototype Object", with the legacy accessors every Node.js has). An object literal
  has \<^verbatim>\<open>Object.prototype\<close> as its prototype, so a read of one of these keys on it finds
  the inherited member when the object has no own property of that name.
\<close>

definition object_prototype_keys :: "string list" where
  "object_prototype_keys =
    [''constructor'', ''__defineGetter__'', ''__defineSetter__'', ''hasOwnProperty'',
     ''__lookupGetter__'', ''__lookupSetter__'', ''isPrototypeOf'', ''propertyIsEnumerable'',
     ''toString'', ''valueOf'', ''__proto__'', ''toLocaleString'']"

text \<open>
  The property read \<^verbatim>\<open>obj[key]\<close> on an object literal: the own property if there is one,
  else the member inherited from \<^verbatim>\<open>Object.prototype\<close>, else \<^verbatim>\<open>undefined\<close>.
\<close>

definition get_property :: "(string \<times> string list) list \<Rightarrow> string \<Rightarrow> js_value" where
  "get_property obj key =
     (case map_of obj key of
        Some cols \<Rightarrow> Array cols
      | None \<Rightarrow> if key \<in> set object_prototype_keys then Inherited key else Undefined)"

text \<open>
  Truthiness, as \<^verbatim>\<open>||\<close> tests it: \<^verbatim>\<open>undefined\<close> is falsy; every array (the empty one
  too), function and object is truthy.
\<close>

fun truthy :: "js_value \<Rightarrow> bool" where
  "truthy Undefined = False"
| "truthy (Array cols) = True"
| "truthy (Inherited key) = True"

text \<open>\<^verbatim>\<open>return positionColumns[position] || [];\<close>\<close>

definition getColumnsForPosition :: "string \<Rightarrow> js_value" where
  "getColumnsForPosition position =
     (let v = get_property positionColumns position
      in if truthy v then v else Array [])"

text \<open>
  \<^verbatim>\<open>columns.map(col => `${col}`).join(', ')\<close>. The template literal of a string is that
  string. Only arrays have a \<^verbatim>\<open>map\<close> method here: on a function or on
  \<^verbatim>\<open>Object.prototype\<close> the read \<^verbatim>\<open>columns.map\<close> is \<^verbatim>\<open>undefined\<close> and calling it throws a
  TypeError.
\<close>

definition generatePositionSelect :: "string \<Rightarrow> js_error + string" where
  "generatePositionSelect position =
     (let columns = getColumnsForPosition position
      in case columns of
           Array cols \<Rightarrow> Inr (join (map (\<lambda>col. col) cols) '', '')
         | _ \<Rightarrow> Inl TypeError)"

text \<open>The own keys of the catalog, in source order.\<close>

definition catalog_keys :: "string list" where
  "catalog_keys = map fst positionColumns"

section \<open>generate_coalesce.js\<close>

text \<open>
  A row of the query result, \<^verbatim>\<open>{column_name: ...}\<close>.
\<close>

record row =
  column_name :: string

text \<open>
  \<^verbatim>\<open>retrieve\<close> and \<^verbatim>\<open>ref\<close> belong to the pipeline framework. What the function hands
  to \<^verbatim>\<open>retrieve\<close> is the SQL text, so the model takes as its parameter what that text
  reads: the rows (table name, column name) of the view
  \<^verbatim>\<open>${ref("new_stats_rows")}.INFORMATION_SCHEMA.COLUMNS\<close>, in the order the warehouse
  returns them, or \<open>None\<close> when the view cannot be resolved or the query is rejected,
  in which case \<^verbatim>\<open>retrieve\<close> throws and the exception leaves the function.
\<close>

type_synonym information_schema_columns = "(string \<times> string) list"

text \<open>
  \<^verbatim>\<open>SELECT column_name FROM ... WHERE table_name = 'new_stats_rows'
  AND column_name NOT IN ('player_', 'source_file')\<close>
\<close>

definition query :: "information_schema_columns \<Rightarrow> row list" where
  "query view =
     map (\<lambda>(t, c). \<lparr>column_name = c\<rparr>)
       (filter (\<lambda>(t, c). t = ''new_stats_rows'' \<and> c \<notin> set [''player_'', ''source_file''])
          view)"

definition retrieve :: "information_schema_columns option \<Rightarrow> js_error + row list" where
  "retrieve view =
     (case view of
        None \<Rightarrow> Inl SchemaUnavailable
      | Some rows \<Rightarrow> Inr (query rows))"

text \<open>
  \<^verbatim>\<open>columns.map(column =>
    `COALESCE(${tables.map(table => `${table}.${column.column_name}`).join(', ')}) AS ${column.column_name}`)\<close>
\<close>

definition coalesceStatements :: "row list \<Rightarrow> string list \<Rightarrow> string list" where
  "coalesceStatements columns tables =
     map (\<lambda>column.
            ''COALESCE(''
            @ join (map (\<lambda>table. table @ ''.'' @ column_name column) tables) '', ''
            @ '') AS '' @ column_name column)
       columns"

text \<open>\<^verbatim>\<open>return coalesceStatements.join(',\n');\<close>\<close>

definition generateCoalesceColumns ::
    "information_schema_columns option \<Rightarrow> string list \<Rightarrow> js_error + string" where
  "generateCoalesceColumns view tables =
     (case retrieve view of
        Inl e \<Rightarrow> Inl e
      | Inr columns \<Rightarrow> Inr (join (coalesceStatements columns tables) '',\<newline>''))"

subsection \<open>The fragment as the specification words it\<close>

text \<open>
  The argument list \<^verbatim>\<open><t1>.<c>, <t2>.<c>, ..., <tn>.<c>\<close> of one call, the tables in
  the order given.
\<close>

fun qualified_arguments :: "string list \<Rightarrow> string \<Rightarrow> string" where
  "qualified_arguments [] c = ''''"
| "qualified_arguments [t] c = t @ ''.'' @ c"
| "qualified_arguments (t # u # ts) c = t @ ''.'' @ c @ '', '' @ qualified_arguments (u # ts) c"

text \<open>\<^verbatim>\<open>COALESCE(<t1>.<c>, <t2>.<c>, ..., <tn>.<c>) AS <c>\<close>\<close>

definition coalesce_expression :: "string list \<Rightarrow> string \<Rightarrow> string" where
  "coalesce_expression tables c = ''COALESCE('' @ qualified_arguments tables c @ '') AS '' @ c"

text \<open>
  The columns of the reference table \<^verbatim>\<open>new_stats_rows\<close> in the view, and the
  Exclusion Set.
\<close>

definition reference_columns :: "information_schema_columns \<Rightarrow> string list" where
  "reference_columns view = map snd (filter (\<lambda>(t, c). t = ''new_stats_rows'') view)"

definition exclusion_set :: "string set" where
  "exclusion_set = {''player_'', ''source_file''}"

section \<open>Properties of join\<close>

lemma join_loop_started:
  "0 < k \<Longrightarrow> join_loop sep k R xs = R @ concat (map (\<lambda>x. sep @ x) xs)"
  by (induction xs arbitrary: k R) simp_all

lemma joined_with_Cons:
  "joined_with sep (x # xs) = x @ concat (map (\<lambda>y. sep @ y) xs)"
  by (induction xs arbitrary: x) simp_all

lemma join_eq_joined_with: "join xs sep = joined_with sep xs"
proof (cases xs)
  case Nil
  then show ?thesis by (simp add: join_def)
next
  case (Cons x rest)
  have "join (x # rest) sep = join_loop sep (Suc 0) x rest"
    by (simp add: join_def)
  also have "\<dots> = x @ concat (map (\<lambda>y. sep @ y) rest)"
    by (rule join_loop_started) simp
  finally show ?thesis
    using Cons by (simp add: joined_with_Cons)
qed

section \<open>The code against the worded fragment\<close>

lemma qualified_arguments_eq:
  "qualified_arguments tables c = joined_with '', '' (map (\<lambda>t. t @ ''.'' @ c) tables)"
  by (induction tables c rule: qualified_arguments.induct) simp_all

lemma coalesceStatements_eq:
  "coalesceStatements columns tables = map (coalesce_expression tables) (map column_name columns)"
  by (simp add: coalesceStatements_def coalesce_expression_def qualified_arguments_eq
      join_eq_joined_with)

lemma generateCoalesceColumns_eq:
  assumes "retrieve view = Inr columns"
  shows "generateCoalesceColumns view tables =
         Inr (joined_with '',\<newline>'' (map (coalesce_expression tables) (map column_name columns)))"
  using assms
  by (simp add: generateCoalesceColumns_def coalesceStatements_eq join_eq_joined_with)

lemma column_name_query:
  "map column_name (query view) =
   filter (\<lambda>c. c \<notin> exclusion_set) (reference_columns view)"
proof (induction view)
  case Nil
  show ?case by (simp add: query_def reference_columns_def)
next
  case (Cons r view)
  obtain t c where r: "r = (t, c)" by (cases r)
  from Cons show ?case
    by (simp add: r query_def reference_columns_def exclusion_set_def)
qed

lemma getColumnsForPosition_cases:
  "getColumnsForPosition label =
     (case map_of positionColumns label of
        Some cols \<Rightarrow> Array cols
      | None \<Rightarrow> if label \<in> set object_prototype_keys then Inherited label else Array [])"
  by (simp add: getColumnsForPosition_def get_property_def split: option.splits)

lemma getColumnsForPosition_unknown:
  "label \<notin> set catalog_keys \<Longrightarrow> label \<notin> set object_prototype_keys \<Longrightarrow>
   getColumnsForPosition label = Array []"
  by (simp add: getColumnsForPosition_cases positionColumns_def catalog_keys_def)

lemma getColumnsForPosition_Unknown: "getColumnsForPosition ''Unknown'' = Array []"
  by (simp add: getColumnsForPosition_cases positionColumns_def object_prototype_keys_def)

text \<open>
  On every label for which \<^verbatim>\<open>getColumnsForPosition\<close> does return a sequence,
  \<^verbatim>\<open>generatePositionSelect\<close> returns that sequence joined with \<^verbatim>\<open>", "\<close>, the empty text
  for the empty sequence.
\<close>

lemma generatePositionSelect_of_sequence:
  assumes "getColumnsForPosition label = Array cols"
  shows "generatePositionSelect label = Inr (joined_with '', '' cols)
         \<and> (cols = [] \<longrightarrow> generatePositionSelect label = Inr '''')"
proof -
  have "generatePositionSelect label = Inr (joined_with '', '' cols)"
    using assms by (simp add: generatePositionSelect_def join_eq_joined_with)
  then show ?thesis by auto
qed

lemma generatePositionSelect_Unknown: "generatePositionSelect ''Unknown'' = Inr ''''"
  using generatePositionSelect_of_sequence [OF getColumnsForPosition_Unknown] by simp

section \<open>The claims\<close>

text \<open>
  Claim C1. For a non-empty list of tables and the rows the query returned,
  \<^verbatim>\<open>generateCoalesceColumns\<close> returns, for each returned column \<open>c\<close> in turn, the
  expression \<^verbatim>\<open>COALESCE(t1.c, t2.c, ..., tn.c) AS c\<close> with the tables in the order of
  \<open>tables\<close>, the expressions joined with a comma followed by a newline.
\<close>

theorem generateCoalesceColumns_emits:
  assumes "retrieve view = Inr columns" and "tables \<noteq> []"
  shows "generateCoalesceColumns view tables =
         Inr (joined_with '',\<newline>'' (map (coalesce_expression tables) (map column_name columns)))"
  using assms(1) by (rule generateCoalesceColumns_eq)

theorem generateCoalesceColumns_emits_witness:
  "retrieve (Some [(''new_stats_rows'', ''player_''), (''new_stats_rows'', ''goals''),
                   (''other'', ''zzz''), (''new_stats_rows'', ''source_file''),
                   (''new_stats_rows'', ''minutes'')])
     = Inr [\<lparr>column_name = ''goals''\<rparr>, \<lparr>column_name = ''minutes''\<rparr>]
   \<and> [''A'', ''B'', ''C''] \<noteq> []
   \<and> generateCoalesceColumns
        (Some [(''new_stats_rows'', ''player_''), (''new_stats_rows'', ''goals''),
               (''other'', ''zzz''), (''new_stats_rows'', ''source_file''),
               (''new_stats_rows'', ''minutes'')])
        [''A'', ''B'', ''C'']
     = Inr (''COALESCE(A.goals, B.goals, C.goals) AS goals,''
            @ [CHR ''\<newline>'']
            @ ''COALESCE(A.minutes, B.minutes, C.minutes) AS minutes'')"
proof -
  let ?view = "Some [(''new_stats_rows'', ''player_''), (''new_stats_rows'', ''goals''),
                     (''other'', ''zzz''), (''new_stats_rows'', ''source_file''),
                     (''new_stats_rows'', ''minutes'')]"
  have r: "retrieve ?view = Inr [\<lparr>column_name = ''goals''\<rparr>, \<lparr>column_name = ''minutes''\<rparr>]"
    by (simp add: retrieve_def query_def)
  have t: "[''A'', ''B'', ''C''] \<noteq> []" by simp
  show ?thesis
    using r generateCoalesceColumns_emits [OF r t]
    by (simp add: coalesce_expression_def)
qed

text \<open>
  Claim C2. When the view can be read, the columns for which an expression is emitted
  are the columns of the reference table without \<^verbatim>\<open>player_\<close> and \<^verbatim>\<open>source_file\<close>, each
  as often and in the order the view lists it: none is invented, no other one is
  dropped, and neither excluded column gets an expression.
\<close>

theorem generateCoalesceColumns_columns:
  "generateCoalesceColumns (Some view) tables =
     Inr (joined_with '',\<newline>''
            (map (coalesce_expression tables) (map column_name (query view))))
   \<and> map column_name (query view) =
       filter (\<lambda>c. c \<notin> exclusion_set) (reference_columns view)
   \<and> set (map column_name (query view)) = set (reference_columns view) - exclusion_set
   \<and> ''player_'' \<notin> set (map column_name (query view))
   \<and> ''source_file'' \<notin> set (map column_name (query view))"
proof -
  have r: "retrieve (Some view) = Inr (query view)"
    by (simp add: retrieve_def)
  have s: "set (map column_name (query view)) = set (reference_columns view) - exclusion_set"
    unfolding column_name_query by auto
  have p: "''player_'' \<in> exclusion_set" "''source_file'' \<in> exclusion_set"
    by (simp_all add: exclusion_set_def)
  from generateCoalesceColumns_eq [OF r] column_name_query s p show ?thesis
    by blast
qed

theorem generateCoalesceColumns_columns_witness:
  "generateCoalesceColumns
     (Some [(''new_stats_rows'', ''player_''), (''new_stats_rows'', ''goals''),
            (''other'', ''zzz''), (''new_stats_rows'', ''source_file'')])
     [''A'', ''B'']
     = Inr ''COALESCE(A.goals, B.goals) AS goals''
   \<and> map column_name
        (query [(''new_stats_rows'', ''player_''), (''new_stats_rows'', ''goals''),
                (''other'', ''zzz''), (''new_stats_rows'', ''source_file'')])
     = [''goals'']"
proof -
  have q: "map column_name
             (query [(''new_stats_rows'', ''player_''), (''new_stats_rows'', ''goals''),
                     (''other'', ''zzz''), (''new_stats_rows'', ''source_file'')])
           = [''goals'']"
    by (simp add: query_def)
  show ?thesis
    using generateCoalesceColumns_columns
      [of "[(''new_stats_rows'', ''player_''), (''new_stats_rows'', ''goals''),
            (''other'', ''zzz''), (''new_stats_rows'', ''source_file'')]" "[''A'', ''B'']"]
    unfolding q by (simp add: coalesce_expression_def)
qed

text \<open>
  Claim C3. For every label, \<^verbatim>\<open>generatePositionSelect(label)\<close> should be the sequence
  returned by \<^verbatim>\<open>getColumnsForPosition(label)\<close> joined with \<^verbatim>\<open>", "\<close>. For the label
  \<^verbatim>\<open>toString\<close> no sequence is returned: \<^verbatim>\<open>getColumnsForPosition\<close> hands back the function
  inherited from \<^verbatim>\<open>Object.prototype\<close>, which has no \<^verbatim>\<open>map\<close> method, so
  \<^verbatim>\<open>generatePositionSelect\<close> throws a TypeError and returns no text at all, the joining
  of no sequence whatever.
\<close>

theorem generatePositionSelect_toString:
  "getColumnsForPosition ''toString'' = Inherited ''toString''
   \<and> generatePositionSelect ''toString'' = Inl TypeError
   \<and> (\<forall>cols. generatePositionSelect ''toString'' \<noteq> Inr (joined_with '', '' cols))"
  by (simp add: generatePositionSelect_def getColumnsForPosition_cases positionColumns_def
      object_prototype_keys_def)

text \<open>
  Claim C4. \<^verbatim>\<open>getColumnsForPosition("Goalkeeper")\<close> returns the eleven goalkeeper columns
  in the order of the catalog.
\<close>

theorem getColumnsForPosition_Goalkeeper:
  "getColumnsForPosition ''Goalkeeper'' =
     Array [''shot_stopping_saves'', ''shot_stopping_sota'', ''shot_stopping_psxg'',
            ''shot_stopping_ga'', ''crosses_stp'', ''crosses_opp'', ''sweeper_#opa'',
            ''sweeper_avgdist'', ''total_cmp%'', ''goal_kicks_launch%'', ''minutes'']"
  by (simp add: getColumnsForPosition_cases positionColumns_def)

text \<open>
  Claim C5. A label that is not a key of the catalog should give an empty sequence.
  The label \<^verbatim>\<open>toString\<close> is not a key of the catalog, yet the property read finds the
  function inherited from \<^verbatim>\<open>Object.prototype\<close>; it is truthy, so the \<^verbatim>\<open>|| []\<close> fallback
  is not taken and \<^verbatim>\<open>getColumnsForPosition\<close> returns that function instead of an empty
  sequence, on which \<^verbatim>\<open>generatePositionSelect\<close> then throws.
\<close>

theorem getColumnsForPosition_toString:
  "''toString'' \<notin> set catalog_keys
   \<and> getColumnsForPosition ''toString'' = Inherited ''toString''
   \<and> getColumnsForPosition ''toString'' \<noteq> Array []
   \<and> generatePositionSelect ''toString'' = Inl TypeError"
  by (simp add: generatePositionSelect_def getColumnsForPosition_cases positionColumns_def
      object_prototype_keys_def catalog_keys_def)

text \<open>
  Claim C6. If the query returns no column, \<^verbatim>\<open>generateCoalesceColumns\<close> returns the
  empty text, whatever \<open>tables\<close> is.
\<close>

theorem generateCoalesceColumns_no_columns:
  assumes "retrieve view = Inr []"
  shows "generateCoalesceColumns view tables = Inr ''''"
  using assms by (simp add: generateCoalesceColumns_def coalesceStatements_def join_def)

theorem generateCoalesceColumns_no_columns_witness:
  "retrieve (Some [(''new_stats_rows'', ''player_''), (''other'', ''goals''),
                   (''new_stats_rows'', ''source_file'')]) = Inr []
   \<and> generateCoalesceColumns
        (Some [(''new_stats_rows'', ''player_''), (''other'', ''goals''),
               (''new_stats_rows'', ''source_file'')])
        [''A'', ''B''] = Inr ''''"
proof -
  have r: "retrieve (Some [(''new_stats_rows'', ''player_''), (''other'', ''goals''),
                           (''new_stats_rows'', ''source_file'')]) = Inr []"
    by (simp add: retrieve_def query_def)
  show ?thesis
    using r generateCoalesceColumns_no_columns [OF r, of "[''A'', ''B'']"] by simp
qed

text \<open>
  Claim C7. \<^verbatim>\<open>generatePositionSelect("Centerback")\<close> returns the seven centerback
  columns separated by a comma and a space.
\<close>

theorem generatePositionSelect_Centerback:
  "generatePositionSelect ''Centerback'' =
     Inr ''aerial_duels_won%, clr_, int_, blocks_blocks, tackles_tkl, tackles_tklw, minutes''"
  by (simp add: generatePositionSelect_def getColumnsForPosition_cases positionColumns_def
      join_def)

text \<open>
  Claim C8. With no tables, \<^verbatim>\<open>generateCoalesceColumns\<close> still returns a text: for each
  returned column \<open>c\<close> the expression \<^verbatim>\<open>COALESCE() AS c\<close>, joined as before.
\<close>

theorem generateCoalesceColumns_no_tables:
  assumes "retrieve view = Inr columns"
  shows "generateCoalesceColumns view [] =
         Inr (joined_with '',\<newline>''
                (map (\<lambda>c. ''COALESCE() AS '' @ c) (map column_name columns)))"
  using assms
  by (simp add: generateCoalesceColumns_def coalesceStatements_def join_eq_joined_with
      join_def comp_def)

theorem generateCoalesceColumns_no_tables_witness:
  "retrieve (Some [(''new_stats_rows'', ''goals''), (''new_stats_rows'', ''minutes'')])
     = Inr [\<lparr>column_name = ''goals''\<rparr>, \<lparr>column_name = ''minutes''\<rparr>]
   \<and> generateCoalesceColumns
        (Some [(''new_stats_rows'', ''goals''), (''new_stats_rows'', ''minutes'')]) []
     = Inr (''COALESCE() AS goals,'' @ [CHR ''\<newline>''] @ ''COALESCE() AS minutes'')"
proof -
  have r: "retrieve (Some [(''new_stats_rows'', ''goals''), (''new_stats_rows'', ''minutes'')])
             = Inr [\<lparr>column_name = ''goals''\<rparr>, \<lparr>column_name = ''minutes''\<rparr>]"
    by (simp add: retrieve_def query_def)
  show ?thesis
    using r generateCoalesceColumns_no_tables [OF r] by simp
qed

text \<open>
  Claim C9. For every key of the catalog, \<^verbatim>\<open>getColumnsForPosition\<close> returns a non-empty
  sequence that contains \<^verbatim>\<open>minutes\<close> and at least one other column.
\<close>

theorem getColumnsForPosition_known:
  assumes "label \<in> set catalog_keys"
  shows "\<exists>cols. getColumnsForPosition label = Array cols \<and> cols \<noteq> []
           \<and> ''minutes'' \<in> set cols \<and> (\<exists>c \<in> set cols. c \<noteq> ''minutes'')"
  using assms
  by (auto simp add: getColumnsForPosition_cases positionColumns_def catalog_keys_def)

theorem getColumnsForPosition_known_witness:
  "''Fullback'' \<in> set catalog_keys
   \<and> (\<exists>cols. getColumnsForPosition ''Fullback'' = Array cols \<and> cols \<noteq> []
        \<and> ''minutes'' \<in> set cols \<and> (\<exists>c \<in> set cols. c \<noteq> ''minutes''))"
proof -
  have k: "''Fullback'' \<in> set catalog_keys"
    by (simp add: catalog_keys_def positionColumns_def)
  show ?thesis
    using k getColumnsForPosition_known [OF k] by simp
qed

text \<open>
  Claim C10. The keys of the catalog are the six labels Goalkeeper, Centerback,
  Fullback, Midfielder, Winger and Striker; \<^verbatim>\<open>getColumnsForPosition(label)\<close> returns a
  non-empty sequence exactly when \<open>label\<close> is one of them; and for each of the six the
  sequence ends with \<^verbatim>\<open>minutes\<close> and has no duplicate.
\<close>

theorem catalog_six_labels:
  "catalog_keys =
     [''Goalkeeper'', ''Centerback'', ''Fullback'', ''Midfielder'', ''Winger'', ''Striker'']
   \<and> ((\<exists>cols. getColumnsForPosition label = Array cols \<and> cols \<noteq> []) \<longleftrightarrow>
        label \<in> set [''Goalkeeper'', ''Centerback'', ''Fullback'', ''Midfielder'', ''Winger'',
                     ''Striker''])
   \<and> (\<forall>l \<in> set [''Goalkeeper'', ''Centerback'', ''Fullback'', ''Midfielder'', ''Winger'',
                  ''Striker''].
        \<exists>cols. getColumnsForPosition l = Array cols \<and> cols \<noteq> []
          \<and> last cols = ''minutes'' \<and> distinct cols)"
proof -
  have a: "catalog_keys =
     [''Goalkeeper'', ''Centerback'', ''Fullback'', ''Midfielder'', ''Winger'', ''Striker'']"
    by (simp add: catalog_keys_def positionColumns_def)
  have b: "(\<exists>cols. getColumnsForPosition label = Array cols \<and> cols \<noteq> []) \<longleftrightarrow>
        label \<in> set [''Goalkeeper'', ''Centerback'', ''Fullback'', ''Midfielder'', ''Winger'',
                     ''Striker'']"
    by (simp add: getColumnsForPosition_cases positionColumns_def)
  have c: "\<forall>l \<in> set [''Goalkeeper'', ''Centerback'', ''Fullback'', ''Midfielder'', ''Winger'',
                  ''Striker''].
        \<exists>cols. getColumnsForPosition l = Array cols \<and> cols \<noteq> []
          \<and> last cols = ''minutes'' \<and> distinct cols"
    by (simp add: getColumnsForPosition_cases positionColumns_def)
  from a b c show ?thesis by blast
qed

theorem catalog_six_labels_witness:
  "''Striker'' \<in> set [''Goalkeeper'', ''Centerback'', ''Fullback'', ''Midfielder'', ''Winger'',
                      ''Striker'']
   \<and> (\<exists>cols. getColumnsForPosition ''Striker'' = Array cols \<and> cols \<noteq> []
        \<and> last cols = ''minutes'' \<and> distinct cols)
   \<and> \<not> (\<exists>cols. getColumnsForPosition ''Unknown'' = Array cols \<and> cols \<noteq> [])"
proof -
  let ?six = "[''Goalkeeper'', ''Centerback'', ''Fullback'', ''Midfielder'', ''Winger'',
               ''Striker'']"
  have s: "''Striker'' \<in> set ?six" by simp
  have u: "''Unknown'' \<notin> set ?six" by simp
  from catalog_six_labels [of "''Striker''"]
  have "\<forall>l \<in> set ?six. \<exists>cols. getColumnsForPosition l = Array cols \<and> cols \<noteq> []
          \<and> last cols = ''minutes'' \<and> distinct cols"
    by (rule conjunct2 [THEN conjunct2])
  with s have a: "\<exists>cols. getColumnsForPosition ''Striker'' = Array cols \<and> cols \<noteq> []
          \<and> last cols = ''minutes'' \<and> distinct cols"
    by blast
  from catalog_six_labels [of "''Unknown''"]
  have "(\<exists>cols. getColumnsForPosition ''Unknown'' = Array cols \<and> cols \<noteq> []) \<longleftrightarrow>
          ''Unknown'' \<in> set ?six"
    by (rule conjunct2 [THEN conjunct1])
  with u have b: "\<not> (\<exists>cols. getColumnsForPosition ''Unknown'' = Array cols \<and> cols \<noteq> [])"
    by blast
  from s a b show ?thesis by (intro conjI)
qed

end
